theory Spec2Isabelle
  imports Main "HOL-Library.Char_ord" "HOL-Library.List_Lexorder"
begin

section \<open>Python values and their text\<close>

text \<open>
  The wrapper builds SQL text with f-strings. A value interpolated on its own
  (\<^verbatim>\<open>f"{val}"\<close>) is rendered by \<^verbatim>\<open>str\<close>; a tuple interpolated into an f-string is
  rendered by the tuple's \<^verbatim>\<open>repr\<close>, which renders every element by \<^verbatim>\<open>repr\<close>.

  Scalars are \<^verbatim>\<open>None\<close>, booleans, unbounded integers and strings. Floats are not
  part of the embedding (their text is the shortest round-trip decimal, which has
  no counterpart here). A string is a list of 8-bit characters, each read as the
  code point of the same number.
\<close>

datatype pyval = PyNone | PyBool bool | PyInt int | PyStr string

abbreviation (input) SQ :: char where "SQ \<equiv> CHR 0x27"
abbreviation (input) DQ :: char where "DQ \<equiv> CHR 0x22"
abbreviation (input) BSL :: char where "BSL \<equiv> CHR 0x5C"

definition digit_char :: "nat \<Rightarrow> char" where
  "digit_char d = ''0123456789abcdef'' ! d"

function dec :: "nat \<Rightarrow> string" where
  "dec n = (if n < 10 then [digit_char n] else dec (n div 10) @ [digit_char (n mod 10)])"
  by pat_completeness auto
termination
  by (relation "measure id") auto

declare dec.simps [simp del]

definition int_str :: "int \<Rightarrow> string" where
  "int_str i = (if i < 0 then CHR ''-'' # dec (nat (- i)) else dec (nat i))"

text \<open>
  \<^verbatim>\<open>repr\<close> of a string: the quote is the single quote, unless the text holds a
  single quote and no double quote. The quote and the backslash are escaped by a
  backslash, tab, newline and carriage return by their letters, the other control
  characters and the non-printable code points below 256 as \<^verbatim>\<open>\xhh\<close>.
\<close>

definition repr_quote :: "string \<Rightarrow> char" where
  "repr_quote s = (if SQ \<in> set s \<and> DQ \<notin> set s then DQ else SQ)"

definition hex2 :: "nat \<Rightarrow> string" where
  "hex2 n = [BSL, CHR ''x'', digit_char (n div 16), digit_char (n mod 16)]"

definition printable :: "nat \<Rightarrow> bool" where
  "printable n = (32 \<le> n \<and> n < 127 \<or> 161 \<le> n \<and> n \<noteq> 173)"

definition repr_char :: "char \<Rightarrow> char \<Rightarrow> string" where
  "repr_char q c =
     (if c = q \<or> c = BSL then [BSL, c]
      else if c = CHR 0x09 then [BSL, CHR ''t'']
      else if c = CHR 0x0A then [BSL, CHR ''n'']
      else if c = CHR 0x0D then [BSL, CHR ''r'']
      else if printable (of_char c) then [c]
      else hex2 (of_char c))"

definition repr_str :: "string \<Rightarrow> string" where
  "repr_str s = (let q = repr_quote s in q # concat (map (repr_char q) s) @ [q])"

fun py_repr :: "pyval \<Rightarrow> string" where
  "py_repr PyNone = ''None''"
| "py_repr (PyBool b) = (if b then ''True'' else ''False'')"
| "py_repr (PyInt i) = int_str i"
| "py_repr (PyStr s) = repr_str s"

fun py_str :: "pyval \<Rightarrow> string" where
  "py_str (PyStr s) = s"
| "py_str v = py_repr v"

text \<open>Truthiness, as \<^verbatim>\<open>if default\<close> tests it.\<close>

fun truthy :: "pyval \<Rightarrow> bool" where
  "truthy PyNone = False"
| "truthy (PyBool b) = b"
| "truthy (PyInt i) = (i \<noteq> 0)"
| "truthy (PyStr s) = (s \<noteq> [])"

text \<open>\<^verbatim>\<open>sep.join(xs)\<close>.\<close>

fun str_join :: "string \<Rightarrow> string list \<Rightarrow> string" where
  "str_join sep [] = []"
| "str_join sep [x] = x"
| "str_join sep (x # y # ys) = x @ sep @ str_join sep (y # ys)"

text \<open>
  \<^verbatim>\<open>repr\<close> of a tuple, given the text of its elements: the empty tuple is
  \<^verbatim>\<open>()\<close>, a tuple of one element carries a trailing comma, \<^verbatim>\<open>(x,)\<close>, and a longer
  one separates its elements by a comma and a space.
\<close>

fun tuple_text :: "string list \<Rightarrow> string" where
  "tuple_text [] = ''()''"
| "tuple_text [x] = ''('' @ x @ '',)''"
| "tuple_text xs = ''('' @ str_join '', '' xs @ '')''"

definition tuple_repr :: "pyval list \<Rightarrow> string" where
  "tuple_repr vs = tuple_text (map py_repr vs)"



text \<open>
  A dictionary is an association list in insertion order (which is the order
  Python iterates in); its keys are distinct. \<^verbatim>\<open>d[key]\<close> for a key of the
  dictionary is the value stored under it.
\<close>

type_synonym 'v dict = "(string \<times> 'v) list"

definition keys :: "'v dict \<Rightarrow> string list" where
  "keys d = map fst d"

definition vals :: "'v dict \<Rightarrow> 'v list" where
  "vals d = map snd d"

definition getitem :: "'v dict \<Rightarrow> string \<Rightarrow> 'v" where
  "getitem d k = the (map_of d k)"

text \<open>
  An argument that is either one item or a list of items
  (\<^verbatim>\<open>str | list[str]\<close>, \<^verbatim>\<open>Pair | Sequence[Pair]\<close>); the code tells them apart with
  \<^verbatim>\<open>isinstance\<close> and wraps the single item in a list.
\<close>

datatype 'a one_or_many = One 'a | Many "'a list"

fun as_list :: "'a one_or_many \<Rightarrow> 'a list" where
  "as_list (One x) = [x]"
| "as_list (Many xs) = xs"

section \<open>The statement builders of the Handler\<close>

text \<open>
  A method whose Python name starts with an underscore carries a prime instead:
  \<^verbatim>\<open>_sql_where\<close> is \<open>sql_where'\<close>, \<^verbatim>\<open>_execute\<close> is \<open>execute'\<close>, the property
  \<^verbatim>\<open>__backups\<close> is \<open>backups'\<close>. The parameters \<^verbatim>\<open>where\<close>, \<^verbatim>\<open>default\<close> and \<^verbatim>\<open>fetch\<close> are
  written \<open>wh\<close>, \<open>dflt\<close> and \<open>limit\<close>. \<^verbatim>\<open>None\<close> for an optional list or dictionary is
  \<open>None\<close>, and is as falsy as the empty one.
\<close>

type_synonym From = "string one_or_many"
type_synonym Select = "string list option"
type_synonym Where = "string dict option"
type_synonym Order = "string dict option"
type_synonym Pair = "pyval dict"

definition sql_select' :: "Select \<Rightarrow> string" where
  "sql_select' select =
     (case select of Some (c # cs) \<Rightarrow> str_join '', '' (c # cs) | _ \<Rightarrow> ''*'')"

fun sql_join' :: "From \<Rightarrow> string" where
  "sql_join' (Many tables) = str_join '' NATURAL JOIN '' tables"
| "sql_join' (One table) = table"

definition sql_where' :: "Where \<Rightarrow> string" where
  "sql_where' wh =
     (case wh of
        Some (kv # kvs) \<Rightarrow>
          ''WHERE '' @ str_join '' AND ''
             (map (\<lambda>key. key @ '' '' @ getitem (kv # kvs) key) (keys (kv # kvs)))
      | _ \<Rightarrow> [])"

definition sql_order' :: "Order \<Rightarrow> string" where
  "sql_order' order =
     (case order of
        Some (kv # kvs) \<Rightarrow>
          ''ORDER BY '' @ str_join '',''
             (map (\<lambda>key. key @ '' '' @ getitem (kv # kvs) key) (keys (kv # kvs)))
      | _ \<Rightarrow> [])"

definition sql_ignore' :: "bool \<Rightarrow> string" where
  "sql_ignore' ignore = (if ignore then ''OR IGNORE '' else [])"

definition row_insert' :: "Pair \<Rightarrow> bool \<Rightarrow> string \<Rightarrow> string" where
  "row_insert' data ignore table =
     ''INSERT '' @ sql_ignore' ignore @ ''INTO '' @ table @ '' ''
       @ tuple_repr (map PyStr (keys data)) @ '' VALUES '' @ tuple_repr (vals data) @ '';''"

definition table_drop' :: "string \<Rightarrow> string" where
  "table_drop' table = ''DROP TABLE IF EXISTS '' @ table @ '';''"


definition sql_select :: "From \<Rightarrow> Select \<Rightarrow> Where \<Rightarrow> Order \<Rightarrow> string" where
  "sql_select tables select wh order =
     ''SELECT '' @ sql_select' select @ '' FROM '' @ sql_join' tables @ '' ''
       @ sql_where' wh @ '' '' @ sql_order' order @ '';''"

section \<open>The Statement Library\<close>

text \<open>
  The bodies of the builders of \<^verbatim>\<open>statement.py\<close>. Each takes the operand of a
  comparison and gives the predicate text that follows the column name.
\<close>

definition negated :: "bool \<Rightarrow> string" where
  "negated negate = (if negate then ''NOT '' else [])"

definition val_eq :: "pyval \<Rightarrow> string" where
  "val_eq val = ''== '' @ [SQ] @ py_str val @ [SQ]"

definition val_neq :: "pyval \<Rightarrow> string" where
  "val_neq val = ''!= '' @ [SQ] @ py_str val @ [SQ]"

definition val_lt :: "pyval \<Rightarrow> string" where
  "val_lt val = ''< '' @ [SQ] @ py_str val @ [SQ]"

definition val_gt :: "pyval \<Rightarrow> string" where
  "val_gt val = ''> '' @ [SQ] @ py_str val @ [SQ]"

definition val_lte :: "pyval \<Rightarrow> string" where
  "val_lte val = ''<= '' @ [SQ] @ py_str val @ [SQ]"

definition val_gte :: "pyval \<Rightarrow> string" where
  "val_gte val = ''>= '' @ [SQ] @ py_str val @ [SQ]"

definition val_in :: "pyval list \<Rightarrow> bool \<Rightarrow> string" where
  "val_in args negate = negated negate @ ''IN '' @ tuple_repr args"

definition val_btw :: "pyval \<Rightarrow> pyval \<Rightarrow> bool \<Rightarrow> string" where
  "val_btw lower upper negate =
     negated negate @ ''BETWEEN '' @ [SQ] @ py_str lower @ [SQ] @ '' AND '' @ [SQ]
       @ py_str upper @ [SQ]"

definition val_like :: "string \<Rightarrow> bool \<Rightarrow> string" where
  "val_like pattern negate = negated negate @ ''LIKE '' @ [SQ] @ pattern @ [SQ]"

definition val_null :: "bool \<Rightarrow> string" where
  "val_null negate = ''IS '' @ negated negate @ ''NULL''"

subsection \<open>Memoisation\<close>

text \<open>
  Every builder is decorated with \<^verbatim>\<open>functools.cache\<close>: the function the module exports
  looks the call up in a dictionary of earlier calls and runs the body only when the
  call is not there. The dictionary is keyed by the arguments: the positional
  arguments as a tuple, followed by the keyword arguments when there are any; a call
  with a single positional argument that is exactly an \<^verbatim>\<open>int\<close> or a \<^verbatim>\<open>str\<close>, and no
  keyword, is keyed by that argument alone. Keys are found by Python equality, under
  which \<^verbatim>\<open>True == 1\<close> and \<^verbatim>\<open>False == 0\<close>.
\<close>

datatype key = KScalar pyval | KArgs "pyval list" "(string \<times> pyval) list"

fun make_key :: "pyval list \<Rightarrow> (string \<times> pyval) list \<Rightarrow> key" where
  "make_key [PyInt i] [] = KScalar (PyInt i)"
| "make_key [PyStr s] [] = KScalar (PyStr s)"
| "make_key args kwds = KArgs args kwds"

fun py_eq :: "pyval \<Rightarrow> pyval \<Rightarrow> bool" where
  "py_eq PyNone PyNone = True"
| "py_eq (PyStr a) (PyStr b) = (a = b)"
| "py_eq (PyInt a) (PyInt b) = (a = b)"
| "py_eq (PyBool a) (PyBool b) = (a = b)"
| "py_eq (PyBool a) (PyInt b) = ((if a then 1 else 0) = b)"
| "py_eq (PyInt a) (PyBool b) = (a = (if b then 1 else 0))"
| "py_eq _ _ = False"

fun key_eq :: "key \<Rightarrow> key \<Rightarrow> bool" where
  "key_eq (KScalar a) (KScalar b) = py_eq a b"
| "key_eq (KArgs a ka) (KArgs b kb) =
     (list_all2 py_eq a b \<and> list_all2 (\<lambda>x y. fst x = fst y \<and> py_eq (snd x) (snd y)) ka kb)"
| "key_eq _ _ = False"

type_synonym cache = "(key \<times> string) list"

fun cache_get :: "cache \<Rightarrow> key \<Rightarrow> string option" where
  "cache_get [] k = None"
| "cache_get ((k', r) # rest) k = (if key_eq k' k then Some r else cache_get rest k)"

definition cached ::
  "(pyval list \<Rightarrow> (string \<times> pyval) list \<Rightarrow> string)
     \<Rightarrow> pyval list \<Rightarrow> (string \<times> pyval) list \<Rightarrow> cache \<Rightarrow> string \<times> cache" where
  "cached body args kwds c =
     (let k = make_key args kwds in
      case cache_get c k of
        Some r \<Rightarrow> (r, c)
      | None \<Rightarrow> (let r = body args kwds in (r, c @ [(k, r)])))"

text \<open>
  \<^verbatim>\<open>val_in(*args, negate=False)\<close> as the module exports it: \<open>negate\<close> is a keyword
  argument, \<open>False\<close> when the call does not give it.
\<close>

definition val_in_call :: "pyval list \<Rightarrow> (string \<times> pyval) list \<Rightarrow> string" where
  "val_in_call args kwds =
     val_in args (case map_of kwds ''negate'' of Some v \<Rightarrow> truthy v | None \<Rightarrow> False)"

definition cached_val_in :: "pyval list \<Rightarrow> (string \<times> pyval) list \<Rightarrow> cache \<Rightarrow> string \<times> cache" where
  "cached_val_in = cached val_in_call"

section \<open>Files, the engine and the Handler\<close>

text \<open>
  The Handler works on a file system and on the database engine. The world holds
  the directory entries the Handler can see (in the order a directory scan gives
  them), each with its kind and its permission bits, and a trace of the calls made
  to the engine. SQL is not interpreted: a statement sent to the engine is an
  \<open>Execute\<close> event of the trace, and the rows a query gives back are an input
  (\<open>answer\<close>). A path is a directory and a file name in it.

  The clock is an input as well: \<open>backup_create\<close> and \<open>row_insert\<close> take the text
  of the current time. The constructor (which runs the schema script), the CSV
  export and the column queries are outside this development.
\<close>

type_synonym path = "string \<times> string"

datatype kind = Regular | Directory

record node =
  kind :: kind
  perms :: nat

datatype event =
    Connect path
  | Execute string
  | Backup path path
  | Commit path
  | Rollback path
  | Close path

record world =
  files :: "(path \<times> node) list"
  trace :: "event list"
  create_perms :: nat

datatype error =
    FileNotFoundError
  | PermissionError
  | IndexError
  | IsADirectoryError
  | OperationalError
  | OverflowError

type_synonym 'a io = "world \<Rightarrow> (error + 'a) \<times> world"

definition ret :: "'a \<Rightarrow> 'a io" where
  "ret x w = (Inr x, w)"

definition raise :: "error \<Rightarrow> 'a io" where
  "raise e w = (Inl e, w)"

definition bind :: "'a io \<Rightarrow> ('a \<Rightarrow> 'b io) \<Rightarrow> 'b io" where
  "bind m f w = (case m w of (Inl e, w') \<Rightarrow> (Inl e, w') | (Inr x, w') \<Rightarrow> f x w')"

definition seq :: "unit io \<Rightarrow> 'b io \<Rightarrow> 'b io" where
  "seq m k = bind m (\<lambda>_. k)"

definition log :: "event \<Rightarrow> unit io" where
  "log e w = (Inr (), w\<lparr>trace := trace w @ [e]\<rparr>)"

fun for_each :: "('a \<Rightarrow> unit io) \<Rightarrow> 'a list \<Rightarrow> unit io" where
  "for_each f [] = ret ()"
| "for_each f (x # xs) = seq (f x) (for_each f xs)"

subsection \<open>Files\<close>

text \<open>\<^verbatim>\<open>st_mode\<close> is the file type together with the permission bits.\<close>

definition st_mode :: "node \<Rightarrow> kind \<times> nat" where
  "st_mode n = (kind n, perms n)"

definition is_file :: "path \<Rightarrow> world \<Rightarrow> bool" where
  "is_file p w = (case map_of (files w) p of Some n \<Rightarrow> kind n = Regular | None \<Rightarrow> False)"

definition is_dir :: "path \<Rightarrow> world \<Rightarrow> bool" where
  "is_dir p w = (case map_of (files w) p of Some n \<Rightarrow> kind n = Directory | None \<Rightarrow> False)"

definition stat :: "path \<Rightarrow> node io" where
  "stat p w =
     (case map_of (files w) p of Some n \<Rightarrow> (Inr n, w) | None \<Rightarrow> (Inl FileNotFoundError, w))"

definition unlink :: "path \<Rightarrow> unit io" where
  "unlink p w =
     (case map_of (files w) p of
        None \<Rightarrow> (Inl FileNotFoundError, w)
      | Some n \<Rightarrow>
          if kind n = Directory then (Inl IsADirectoryError, w)
          else (Inr (), w\<lparr>files := filter (\<lambda>e. fst e \<noteq> p) (files w)\<rparr>))"

text \<open>
  \<^verbatim>\<open>Path.replace\<close>: the source file takes the place of the target. The Handler
  renames regular files only (after \<open>backup_check\<close>); a directory as source or as
  target is reported as an error.
\<close>

definition replace :: "path \<Rightarrow> path \<Rightarrow> unit io" where
  "replace src dst w =
     (case map_of (files w) src of
        None \<Rightarrow> (Inl FileNotFoundError, w)
      | Some n \<Rightarrow>
          if kind n = Directory \<or> is_dir dst w then (Inl IsADirectoryError, w)
          else if src = dst then (Inr (), w)
          else (Inr (), w\<lparr>files :=
                  (if map_of (files w) dst = None
                   then filter (\<lambda>e. fst e \<noteq> src) (files w) @ [(dst, n)]
                   else map (\<lambda>e. if fst e = dst then (dst, n) else e)
                          (filter (\<lambda>e. fst e \<noteq> src) (files w)))\<rparr>))"

text \<open>
  Path arithmetic of \<^verbatim>\<open>pathlib\<close>: the suffix of a file name starts at its last dot,
  when that dot is neither the first nor the last character; the stem is the rest.
  The pattern \<^verbatim>\<open>{stem}_*{suffix}.bak\<close> matches a name that starts with the text before
  the star and ends with the text after it, the two not overlapping (stem and
  suffix are taken literally).
\<close>

definition rfind_dot :: "string \<Rightarrow> nat option" where
  "rfind_dot name =
     (case filter (\<lambda>i. name ! i = CHR ''.'') (rev [0..<length name]) of
        [] \<Rightarrow> None | i # _ \<Rightarrow> Some i)"

definition suffix :: "string \<Rightarrow> string" where
  "suffix name =
     (case rfind_dot name of
        Some i \<Rightarrow> if 0 < i \<and> i < length name - 1 then drop i name else []
      | None \<Rightarrow> [])"

definition stem :: "string \<Rightarrow> string" where
  "stem name =
     (case rfind_dot name of
        Some i \<Rightarrow> if 0 < i \<and> i < length name - 1 then take i name else name
      | None \<Rightarrow> name)"

definition glob_match :: "string \<Rightarrow> string \<Rightarrow> string \<Rightarrow> bool" where
  "glob_match pre post name =
     (length pre + length post \<le> length name
      \<and> take (length pre) name = pre
      \<and> drop (length name - length post) name = post)"

subsection \<open>The engine\<close>

text \<open>
  \<^verbatim>\<open>sqlite3.connect\<close> opens the file and creates it when it is not there; a
  directory cannot be opened. \<^verbatim>\<open>with closing(...)\<close> closes the connection on every
  exit, \<^verbatim>\<open>with conn\<close> commits on a normal exit and rolls back on an error.
\<close>

definition touch :: "path \<Rightarrow> nat \<Rightarrow> (path \<times> node) list \<Rightarrow> (path \<times> node) list" where
  "touch p mode fs =
     (case map_of fs p of
        None \<Rightarrow> fs @ [(p, \<lparr>kind = Regular, perms = mode\<rparr>)]
      | Some n \<Rightarrow> fs)"

definition connect :: "path \<Rightarrow> unit io" where
  "connect p w =
     (if is_dir p w then (Inl OperationalError, w)
      else (Inr (), w\<lparr>files := touch p (create_perms w) (files w),
                      trace := trace w @ [Connect p]\<rparr>))"

definition closing :: "path \<Rightarrow> 'a io \<Rightarrow> 'a io" where
  "closing p body =
     seq (connect p)
       (\<lambda>w. case body w of (r, w') \<Rightarrow> (r, w'\<lparr>trace := trace w' @ [Close p]\<rparr>))"

definition transaction :: "path \<Rightarrow> 'a io \<Rightarrow> 'a io" where
  "transaction p body w =
     (case body w of
        (Inr x, w') \<Rightarrow> (Inr x, w'\<lparr>trace := trace w' @ [Commit p]\<rparr>)
      | (Inl e, w') \<Rightarrow> (Inl e, w'\<lparr>trace := trace w' @ [Rollback p]\<rparr>))"

text \<open>
  \<^verbatim>\<open>Cursor.fetchmany(size)\<close>: the size is read as a C \<^verbatim>\<open>int\<close>; rows are collected
  until the cursor is exhausted or the count of collected rows equals the size.
\<close>

fun fetch_loop :: "'r list \<Rightarrow> int \<Rightarrow> int \<Rightarrow> 'r list" where
  "fetch_loop [] counter maxrows = []"
| "fetch_loop (row # rest) counter maxrows =
     row # (if counter + 1 = maxrows then [] else fetch_loop rest (counter + 1) maxrows)"

definition fetchmany :: "'r list \<Rightarrow> int \<Rightarrow> 'r list io" where
  "fetchmany rows maxrows =
     (if maxrows < - (2 ^ 31) \<or> 2 ^ 31 \<le> maxrows then raise OverflowError
      else ret (fetch_loop rows 0 maxrows))"

subsection \<open>The Handler\<close>

record Handler =
  database :: path
  schema :: path
  backups :: int
  threshold :: int

definition backups' :: "Handler \<Rightarrow> int" where
  "backups' h = abs (backups h)"

definition conn_run' :: "unit io" where
  "conn_run' =
     seq (log (Execute ''PRAGMA foreign_keys = ON;''))
    (seq (log (Execute ''PRAGMA journal_mode = WAL;''))
         (log (Execute ''PRAGMA synchronous = NORMAL;'')))"

definition execute' :: "Handler \<Rightarrow> string one_or_many \<Rightarrow> unit io" where
  "execute' h sqls =
     closing (database h)
       (transaction (database h)
          (seq conn_run' (for_each (\<lambda>sql. log (Execute sql)) (as_list sqls))))"

definition fetch' :: "Handler \<Rightarrow> (string \<Rightarrow> 'r list) \<Rightarrow> string \<Rightarrow> int \<Rightarrow> 'r list io" where
  "fetch' h answer sql limit =
     closing (database h)
       (seq (transaction (database h) conn_run')
          (seq (log (Execute sql))
             (fetchmany (answer sql) (if limit \<noteq> 0 then limit else - 1))))"

text \<open>
  \<^verbatim>\<open>backup_list\<close> globs the directory of the database for \<^verbatim>\<open>{stem}_*{suffix}.bak\<close>.
\<close>

definition backup_glob :: "Handler \<Rightarrow> path \<Rightarrow> bool" where
  "backup_glob h p =
     (let db = database h in
      fst p = fst db
      \<and> glob_match (stem (snd db) @ ''_'') (suffix (snd db) @ ''.bak'') (snd p))"

definition backup_list :: "Handler \<Rightarrow> world \<Rightarrow> path list" where
  "backup_list h w = filter (backup_glob h) (map fst (files w))"

text \<open>
  \<open>bck_time\<close> is the text of the clock, \<^verbatim>\<open>datetime.now().strftime("%Y%m%d_%H%M%S_%f")\<close>.
  The backups are sorted by file name (they are in one directory).
\<close>

definition bck_path :: "Handler \<Rightarrow> string \<Rightarrow> path" where
  "bck_path h bck_time =
     (let db = database h
      in (fst db, stem (snd db) @ ''_'' @ bck_time @ suffix (snd db) @ ''.bak''))"

definition backup_create :: "Handler \<Rightarrow> string \<Rightarrow> unit io" where
  "backup_create h bck_time w =
     (let backups = sort_key snd (backup_list h w)
      in seq (if int (length backups) \<ge> backups' h
              then (case backups of [] \<Rightarrow> raise IndexError | oldest # _ \<Rightarrow> unlink oldest)
              else ret ())
           (closing (database h)
              (closing (bck_path h bck_time)
                 (transaction (database h)
                    (transaction (bck_path h bck_time)
                       (log (Backup (database h) (bck_path h bck_time))))))) w)"

definition backup_check :: "Handler \<Rightarrow> path \<Rightarrow> path io" where
  "backup_check h backup w =
     (if \<not> is_file backup w then raise FileNotFoundError w
      else bind (stat backup) (\<lambda>b. bind (stat (database h)) (\<lambda>d.
             if st_mode b \<noteq> st_mode d then raise PermissionError else ret backup)) w)"

definition backup_set :: "Handler \<Rightarrow> path \<Rightarrow> unit io" where
  "backup_set h backup = bind (backup_check h backup) (\<lambda>path. replace path (database h))"

definition backup_pop :: "Handler \<Rightarrow> path \<Rightarrow> unit io" where
  "backup_pop h backup = bind (backup_check h backup) (\<lambda>path. unlink path)"




definition table_drop :: "Handler \<Rightarrow> From \<Rightarrow> unit io" where
  "table_drop h tables =
     execute' h (Many (map table_drop' (filter (\<lambda>table. table \<noteq> []) (as_list tables))))"


definition fetch_all :: "Handler \<Rightarrow> (string \<Rightarrow> 'r list) \<Rightarrow> string \<Rightarrow> int \<Rightarrow> 'r list io" where
  "fetch_all h answer table limit =
     (let sql = ''SELECT * FROM '' @ table @ '';'' in fetch' h answer sql limit)"

definition fetch ::
  "Handler \<Rightarrow> (string \<Rightarrow> 'r list) \<Rightarrow> From \<Rightarrow> Select \<Rightarrow> Where \<Rightarrow> Order \<Rightarrow> int \<Rightarrow> 'r list io" where
  "fetch h answer tables select wh order limit =
     (let sql = sql_select tables select wh order in fetch' h answer sql limit)"

text \<open>The events that an operation added to the trace.\<close>

definition new_events :: "world \<Rightarrow> world \<Rightarrow> event list" where
  "new_events w w' = drop (length (trace w)) (trace w')"



section \<open>Example inputs\<close>

text \<open>
  A database \<^verbatim>\<open>/d/db.sqlite\<close> with mode \<^verbatim>\<open>0o644\<close>, alone in its directory
  (\<open>w_ex\<close>) or with two backups beside it, the newer one with mode \<^verbatim>\<open>0o600\<close>
  (\<open>w_bak\<close>); Handlers on it with the default retention and threshold (\<open>h_ex\<close>),
  with threshold 1 (\<open>h_one\<close>), with retention 0 (\<open>h_zero\<close>), with retention 1, given
  as \<open>-1\<close> (\<open>h_keep1\<close>), and with retention 2 (\<open>h_keep2\<close>); a batch of two rows.
\<close>

definition w_ex :: world where
  "w_ex = \<lparr>files = [((''/d'', ''db.sqlite''), \<lparr>kind = Regular, perms = 420\<rparr>)],
           trace = [], create_perms = 420\<rparr>"

definition w_bak :: world where
  "w_bak = \<lparr>files = [((''/d'', ''db.sqlite''), \<lparr>kind = Regular, perms = 420\<rparr>),
                    ((''/d'', ''db_20240102_000000_000000.sqlite.bak''),
                       \<lparr>kind = Regular, perms = 384\<rparr>),
                    ((''/d'', ''db_20240101_000000_000000.sqlite.bak''),
                       \<lparr>kind = Regular, perms = 420\<rparr>)],
            trace = [], create_perms = 420\<rparr>"

definition h_ex :: Handler where
  "h_ex = \<lparr>database = (''/d'', ''db.sqlite''), schema = (''/d'', ''schema.sql''),
           backups = 3, threshold = 10\<rparr>"


definition h_zero :: Handler where
  "h_zero = \<lparr>database = (''/d'', ''db.sqlite''), schema = (''/d'', ''schema.sql''),
             backups = 0, threshold = 10\<rparr>"




section \<open>Assembled statements\<close>

text \<open>
  C1. The statement assembled for
  \<^verbatim>\<open>fetch(tables=["t1","t2"], select=["t1.x"], where={"t1.id": "== '5'"}, order={"t1.x": "ASC"})\<close>
  is, character for character,
  \<^verbatim>\<open>SELECT t1.x FROM t1 NATURAL JOIN t2 WHERE t1.id == '5' ORDER BY t1.x ASC;\<close>.
\<close>

theorem sql_select_example:
  "sql_select (Many [''t1'', ''t2'']) (Some [''t1.x''])
      (Some [(''t1.id'', ''== '' @ [SQ] @ ''5'' @ [SQ])]) (Some [(''t1.x'', ''ASC'')])
   = ''SELECT t1.x FROM t1 NATURAL JOIN t2 WHERE t1.id == '5' ORDER BY t1.x ASC;''"
  by (simp add: sql_select_def sql_select'_def sql_where'_def sql_order'_def
      keys_def getitem_def)

lemma tuple_text_many: "2 \<le> length xs \<Longrightarrow> tuple_text xs = ''('' @ str_join '', '' xs @ '')''"
  by (cases xs rule: tuple_text.cases) simp_all

text \<open>
  A name of printable characters without quote and backslash is rendered between
  single quotes, as it is.
\<close>

lemma repr_char_plain:
  assumes "printable (of_char c)" and "c \<noteq> SQ" and "c \<noteq> BSL"
  shows "repr_char SQ c = [c]"
proof -
  from assms(1) have "(32 :: nat) \<le> of_char c" by (auto simp: printable_def)
  then have "c \<noteq> CHR 0x09" "c \<noteq> CHR 0x0A" "c \<noteq> CHR 0x0D" by auto
  with assms show ?thesis by (simp add: repr_char_def)
qed

lemma repr_str_plain:
  assumes "\<forall>c \<in> set s. printable (of_char c) \<and> c \<noteq> SQ \<and> c \<noteq> BSL"
  shows "repr_str s = SQ # s @ [SQ]"
proof -
  from assms have q: "repr_quote s = SQ" by (auto simp: repr_quote_def)
  from assms have "concat (map (repr_char SQ) s) = s"
    by (induction s) (simp_all add: repr_char_plain)
  with q show ?thesis by (simp add: repr_str_def Let_def)
qed

text \<open>
  C2, as the code has it. For a non-empty table name and a row mapping of two or more
  entries the insert statement is
  \<^verbatim>\<open>INSERT [OR IGNORE] INTO {table} ('col1', 'col2', ...) VALUES (val1, val2, ...);\<close>:
  the columns are the keys of the mapping, each rendered as a Python string literal
  (in quotes), the values are the values of the mapping, each rendered by \<^verbatim>\<open>repr\<close>,
  both comma-separated in parentheses, pairwise and in the iteration order of the
  mapping.
\<close>

theorem row_insert_statement:
  assumes "table \<noteq> []" and "2 \<le> length data"
  shows "row_insert' data ignore table =
           ''INSERT '' @ (if ignore then ''OR IGNORE '' else []) @ ''INTO '' @ table
             @ '' ('' @ str_join '', '' (map (\<lambda>kv. py_repr (PyStr (fst kv))) data)
             @ '') VALUES ('' @ str_join '', '' (map (\<lambda>kv. py_repr (snd kv)) data) @ '');''"
  using assms(2)
  by (simp add: row_insert'_def sql_ignore'_def tuple_repr_def keys_def vals_def
      tuple_text_many comp_def)

text \<open>
  The statement for \<^verbatim>\<open>{"a": 1, "b": "x"}\<close> with \<^verbatim>\<open>ignore=True\<close>.
\<close>

theorem row_insert_statement_witness:
  "row_insert' [(''a'', PyInt 1), (''b'', PyStr ''x'')] True ''t''
     = ''INSERT OR IGNORE INTO t ('a', 'b') VALUES (1, 'x');''"
  using row_insert_statement [of "''t''" "[(''a'', PyInt 1), (''b'', PyStr ''x'')]" True]
  by (simp add: repr_str_def repr_quote_def repr_char_def printable_def int_str_def
      dec.simps digit_char_def Let_def)

text \<open>
  C2 as stated asks for bare column names. For \<^verbatim>\<open>{"a": 1, "b": "x"}\<close> the column list
  is \<^verbatim>\<open>('a', 'b')\<close>, not \<^verbatim>\<open>(a, b)\<close>.
\<close>

theorem row_insert_bare_columns_counterexample:
  "row_insert' [(''a'', PyInt 1), (''b'', PyStr ''x'')] False ''t''
     = ''INSERT INTO t ('a', 'b') VALUES (1, 'x');''
   \<and> row_insert' [(''a'', PyInt 1), (''b'', PyStr ''x'')] False ''t''
     \<noteq> ''INSERT INTO t (a, b) VALUES (1, 'x');''"
  by (simp add: row_insert'_def sql_ignore'_def tuple_repr_def keys_def vals_def
      repr_str_def repr_quote_def repr_char_def printable_def int_str_def
      dec.simps digit_char_def Let_def)

text \<open>A mapping of one entry: both tuples carry a trailing comma.\<close>

lemma row_insert_single_column:
  "row_insert' [(''a'', PyInt 1)] False ''t'' = ''INSERT INTO t ('a',) VALUES (1,);''"
  by (simp add: row_insert'_def sql_ignore'_def tuple_repr_def keys_def vals_def
      repr_str_def repr_quote_def repr_char_def printable_def int_str_def
      dec.simps digit_char_def Let_def)

section \<open>The membership builder and the memo\<close>




lemma py_eq_refl: "py_eq v v"
  by (cases v) simp_all

lemma key_eq_refl: "key_eq k k"
  by (cases k) (simp_all add: py_eq_refl list_all2_same)

lemma cache_get_append: "cache_get c k = Some r \<Longrightarrow> cache_get (c @ c') k = Some r"
  by (induction c) (auto split: if_splits)

lemma cache_get_snoc: "cache_get c k = None \<Longrightarrow> cache_get (c @ [(k, r)]) k = Some r"
  by (induction c) (auto simp: key_eq_refl split: if_splits)

text \<open>
  A call leaves its result in the memo, and no later call takes it out or
  changes it: calls with the same arguments give the same text as long as the
  memo lives.
\<close>

lemma cached_stores:
  "cached body args kwds c = (r, c') \<Longrightarrow> cache_get c' (make_key args kwds) = Some r"
  by (auto simp: cached_def Let_def cache_get_snoc split: option.splits)

lemma cached_keeps:
  "cache_get c k = Some r \<Longrightarrow> cache_get (snd (cached body args kwds c)) k = Some r"
  by (auto simp: cached_def Let_def cache_get_append split: option.splits)

lemma cached_hit:
  "cache_get c (make_key args kwds) = Some r \<Longrightarrow> fst (cached body args kwds c) = r"
  by (simp add: cached_def)

lemma cached_fresh: "fst (cached body args kwds []) = body args kwds"
  by (simp add: cached_def Let_def)

text \<open>
  C8. The exported builders are memoised, and the memo finds a call by Python
  equality of its arguments. On a fresh memo \<^verbatim>\<open>val_in(1, 2)\<close> gives \<^verbatim>\<open>IN (1, 2)\<close>; after
  a call \<^verbatim>\<open>val_in(True, 2)\<close> the same call \<^verbatim>\<open>val_in(1, 2)\<close> gives \<^verbatim>\<open>IN (True, 2)\<close>:
  the earlier call changed the later result.
\<close>

theorem val_in_cache_conflation:
  "fst (cached_val_in [PyInt 1, PyInt 2] [] []) = ''IN (1, 2)''
   \<and> fst (cached_val_in [PyInt 1, PyInt 2] []
            (snd (cached_val_in [PyBool True, PyInt 2] [] []))) = ''IN (True, 2)''"
  by (simp add: cached_val_in_def cached_def val_in_call_def val_in_def negated_def
      tuple_repr_def int_str_def dec.simps digit_char_def Let_def)

section \<open>What the engine is asked to do\<close>

lemmas io_defs = ret_def raise_def bind_def seq_def log_def


lemma conn_run'_eq:
  "conn_run' w =
     (Inr (), w\<lparr>trace := trace w @ [Execute ''PRAGMA foreign_keys = ON;'',
                                     Execute ''PRAGMA journal_mode = WAL;'',
                                     Execute ''PRAGMA synchronous = NORMAL;'']\<rparr>)"
  by (simp add: conn_run'_def io_defs)

lemma map_of_touch:
  "map_of (touch q mode fs) p =
     (if p = q \<and> map_of fs q = None then Some \<lparr>kind = Regular, perms = mode\<rparr> else map_of fs p)"
  by (auto simp: touch_def map_of_append map_add_def split: option.splits)

lemma is_dir_touch [simp]:
  "is_dir p (w\<lparr>files := touch q mode (files w)\<rparr>) = is_dir p w"
  by (auto simp: is_dir_def map_of_touch split: option.splits)

lemma is_dir_trace [simp]: "is_dir p (w\<lparr>trace := t\<rparr>) = is_dir p w"
  by (simp add: is_dir_def)


lemma fetch_loop_all: "maxrows \<le> counter \<Longrightarrow> fetch_loop rows counter maxrows = rows"
  by (induction rows arbitrary: counter) simp_all

lemma fetch_loop_take:
  "counter < maxrows \<Longrightarrow> fetch_loop rows counter maxrows = take (nat (maxrows - counter)) rows"
proof (induction rows arbitrary: counter)
  case Nil
  then show ?case by simp
next
  case (Cons row rest)
  show ?case
  proof (cases "counter + 1 = maxrows")
    case True
    then have "nat (maxrows - counter) = Suc 0" by simp
    with True show ?thesis by simp
  next
    case False
    with Cons.prems have lt: "counter + 1 < maxrows" by simp
    have "nat (maxrows - counter) = Suc (nat (maxrows - (counter + 1)))"
      using lt by simp
    with Cons.IH [OF lt] False show ?thesis by simp
  qed
qed

lemma fetch'_result:
  "\<not> is_dir (database h) w \<Longrightarrow>
   fst (fetch' h answer sql limit w) =
     (let maxrows = (if limit \<noteq> 0 then limit else - 1) in
      if maxrows < - (2 ^ 31) \<or> 2 ^ 31 \<le> maxrows then Inl OverflowError
      else Inr (fetch_loop (answer sql) 0 maxrows))"
  by (simp add: fetch'_def fetchmany_def closing_def transaction_def connect_def
      conn_run'_eq io_defs Let_def)

text \<open>
  C9. When the database can be opened, a row limit of 0 gives all rows of the result,
  for \<open>fetch\<close> and for \<open>fetch_all\<close>; a positive limit \<open>k\<close> that fits a C \<^verbatim>\<open>int\<close> gives
  the first \<open>k\<close> rows (all of them when there are fewer), and whenever a query with a
  positive limit \<open>k\<close> returns, it returns the first \<open>k\<close> rows at most.
\<close>

theorem fetch_limit:
  assumes "\<not> is_dir (database h) w"
  shows "fst (fetch h answer tables select wh order 0 w)
           = Inr (answer (sql_select tables select wh order))
       \<and> fst (fetch_all h answer table 0 w) = Inr (answer (''SELECT * FROM '' @ table @ '';''))
       \<and> (0 < k \<longrightarrow> k < 2 ^ 31 \<longrightarrow>
            fst (fetch h answer tables select wh order k w)
              = Inr (take (nat k) (answer (sql_select tables select wh order)))
          \<and> fst (fetch_all h answer table k w)
              = Inr (take (nat k) (answer (''SELECT * FROM '' @ table @ '';''))))
       \<and> (0 < k \<longrightarrow> (\<forall>rows. fst (fetch' h answer sql k w) = Inr rows
                          \<longrightarrow> rows = take (nat k) (answer sql)))"
  using assms
  by (simp add: fetch_def fetch_all_def fetch'_result fetch_loop_all fetch_loop_take Let_def)

text \<open>
  Three rows in the result: limit 0 gives the three, limit 2 the first two.
\<close>

theorem fetch_limit_witness:
  "\<not> is_dir (database h_ex) w_ex
   \<and> fst (fetch_all h_ex (\<lambda>sql. [10, 20, 30 :: nat]) ''t'' 0 w_ex) = Inr [10, 20, 30]
   \<and> fst (fetch_all h_ex (\<lambda>sql. [10, 20, 30 :: nat]) ''t'' 2 w_ex) = Inr [10, 20]"
proof -
  have d: "\<not> is_dir (database h_ex) w_ex"
    by (simp add: is_dir_def h_ex_def w_ex_def)
  have two: "nat 2 = Suc (Suc 0)" by simp
  from fetch_limit [OF d, of "\<lambda>sql. [10, 20, 30 :: nat]" "One ''t''" None None None "''t''" 2 "''x''"] d
  show ?thesis by (simp add: two)
qed

section \<open>Backups before large inserts\<close>

lemma snapshot_eq:
  "closing db (closing bck (transaction db (transaction bck (log (Backup db bck))))) w =
     (if is_dir db w then (Inl OperationalError, w)
      else if is_dir bck w
        then (Inl OperationalError,
              w\<lparr>files := touch db (create_perms w) (files w),
                trace := trace w @ [Connect db, Close db]\<rparr>)
      else (Inr (),
            w\<lparr>files := touch bck (create_perms w) (touch db (create_perms w) (files w)),
              trace := trace w @ [Connect db, Connect bck, Backup db bck, Commit bck, Commit db,
                                  Close bck, Close db]\<rparr>))"
  by (simp add: closing_def transaction_def connect_def io_defs)


lemma new_events_append [simp]: "new_events w (w'\<lparr>trace := trace w @ evs\<rparr>) = evs"
  by (simp add: new_events_def)









section \<open>Empty table names and payloads\<close>




section \<open>Checking a backup before restoring or deleting it\<close>

text \<open>
  C6. When the backup path does not exist, \<open>backup_set\<close> and \<open>backup_pop\<close> fail with
  \<open>FileNotFoundError\<close>; when it is an existing file whose permission bits differ from
  those of the live database, they fail with \<open>PermissionError\<close>. In both cases the
  world after the call is the world before it: no file was touched.
\<close>

theorem backup_check_failures:
  "(map_of (files w) backup = None \<longrightarrow>
      backup_set h backup w = (Inl FileNotFoundError, w)
    \<and> backup_pop h backup w = (Inl FileNotFoundError, w))
   \<and> (\<forall>b d. map_of (files w) backup = Some b \<longrightarrow> kind b = Regular \<longrightarrow>
         map_of (files w) (database h) = Some d \<longrightarrow> perms b \<noteq> perms d \<longrightarrow>
           backup_set h backup w = (Inl PermissionError, w)
         \<and> backup_pop h backup w = (Inl PermissionError, w))"
  by (simp add: backup_set_def backup_pop_def backup_check_def is_file_def stat_def st_mode_def
      io_defs)

text \<open>
  A missing backup, and a backup with mode \<^verbatim>\<open>0o600\<close> beside a database with mode
  \<^verbatim>\<open>0o644\<close>.
\<close>

theorem backup_check_failures_witness:
  "map_of (files w_bak) (''/d'', ''missing.bak'') = None
   \<and> backup_set h_ex (''/d'', ''missing.bak'') w_bak = (Inl FileNotFoundError, w_bak)
   \<and> backup_pop h_ex (''/d'', ''missing.bak'') w_bak = (Inl FileNotFoundError, w_bak)
   \<and> backup_set h_ex (''/d'', ''db_20240102_000000_000000.sqlite.bak'') w_bak
       = (Inl PermissionError, w_bak)
   \<and> backup_pop h_ex (''/d'', ''db_20240102_000000_000000.sqlite.bak'') w_bak
       = (Inl PermissionError, w_bak)"
proof -
  have m: "map_of (files w_bak) (''/d'', ''missing.bak'') = None"
    by (simp add: w_bak_def)
  have b: "map_of (files w_bak) (''/d'', ''db_20240102_000000_000000.sqlite.bak'')
             = Some \<lparr>kind = Regular, perms = 384\<rparr>"
    by (simp add: w_bak_def)
  have d: "map_of (files w_bak) (database h_ex) = Some \<lparr>kind = Regular, perms = 420\<rparr>"
    by (simp add: w_bak_def h_ex_def)
  from backup_check_failures [of w_bak "(''/d'', ''missing.bak'')" h_ex] m
  have 1: "backup_set h_ex (''/d'', ''missing.bak'') w_bak = (Inl FileNotFoundError, w_bak)
         \<and> backup_pop h_ex (''/d'', ''missing.bak'') w_bak = (Inl FileNotFoundError, w_bak)"
    by blast
  from backup_check_failures [of w_bak "(''/d'', ''db_20240102_000000_000000.sqlite.bak'')" h_ex]
    b d
  have 2: "backup_set h_ex (''/d'', ''db_20240102_000000_000000.sqlite.bak'') w_bak
             = (Inl PermissionError, w_bak)
         \<and> backup_pop h_ex (''/d'', ''db_20240102_000000_000000.sqlite.bak'') w_bak
             = (Inl PermissionError, w_bak)"
    by simp
  from m 1 2 show ?thesis by blast
qed

text \<open>A directory at the backup path counts as a missing file.\<close>

lemma backup_check_directory:
  "is_dir backup w \<Longrightarrow> backup_check h backup w = (Inl FileNotFoundError, w)"
  by (auto simp: backup_check_def is_dir_def is_file_def io_defs split: option.splits)

section \<open>The eviction index\<close>

lemma unlink_not_IndexError: "fst (unlink p w) \<noteq> Inl IndexError"
  by (simp add: unlink_def split: option.splits)

lemma backup_create_IndexError:
  assumes ie: "fst (backup_create h t w) = Inl IndexError"
  shows "backups' h = 0 \<and> backup_list h w = []"
proof -
  let ?bs = "sort_key snd (backup_list h w)"
  have len: "length ?bs = length (backup_list h w)" by simp
  have "int (length ?bs) \<ge> backups' h \<and> ?bs = []"
  proof (rule ccontr)
    assume n: "\<not> (int (length ?bs) \<ge> backups' h \<and> ?bs = [])"
    show False
    proof (cases "int (length ?bs) \<ge> backups' h")
      case True
      with n obtain oldest rest where bs: "?bs = oldest # rest" by (cases ?bs) auto
      obtain r1 w1 where u: "unlink oldest w = (r1, w1)" by (cases "unlink oldest w")
      with unlink_not_IndexError [of oldest w] have "r1 \<noteq> Inl IndexError" by simp
      with ie True bs u show False
        unfolding backup_create_def Let_def
        by (cases r1) (auto simp: io_defs snapshot_eq split: if_splits)
    next
      case False
      with ie show False
        unfolding backup_create_def Let_def
        by (auto simp: io_defs snapshot_eq split: if_splits)
    qed
  qed
  then have c: "int (length ?bs) \<ge> backups' h" and e: "?bs = []" by blast+
  from e have "length ?bs = 0" by (simp only: list.size)
  with len have l0: "length (backup_list h w) = 0" by (simp only:)
  with c len have "backups' h \<le> 0" by (simp only: of_nat_0)
  with l0 show ?thesis by (simp add: backups'_def)
qed

text \<open>
  C10. With retention count 0 and no backup file in the directory \<open>backup_create\<close>
  fails with \<open>IndexError\<close> and the world is as before: nothing was written. It is the
  only way to this error: \<open>IndexError\<close> means that the effective retention count is 0
  and that there is no backup, so with an effective retention count of 1 or more the
  index is always in bounds.
\<close>

theorem backup_create_index:
  "(backups h = 0 \<longrightarrow> backup_list h w = [] \<longrightarrow> backup_create h t w = (Inl IndexError, w))
   \<and> (fst (backup_create h t w) = Inl IndexError \<longrightarrow> backups' h = 0 \<and> backup_list h w = [])
   \<and> (1 \<le> backups' h \<longrightarrow> fst (backup_create h t w) \<noteq> Inl IndexError)"
proof (intro conjI impI)
  assume "backups h = 0" "backup_list h w = []"
  then show "backup_create h t w = (Inl IndexError, w)"
    by (simp add: backup_create_def backups'_def io_defs)
next
  assume "fst (backup_create h t w) = Inl IndexError"
  then show "backups' h = 0" "backup_list h w = []"
    using backup_create_IndexError by blast+
next
  assume "1 \<le> backups' h"
  then show "fst (backup_create h t w) \<noteq> Inl IndexError"
    using backup_create_IndexError [of h t w] by auto
qed

text \<open>
  Retention 0 on a directory without backups fails; retention 3 does not.
\<close>

theorem backup_create_index_witness:
  "backups h_zero = 0 \<and> backup_list h_zero w_ex = []
   \<and> backup_create h_zero ''20240103_000000_000000'' w_ex = (Inl IndexError, w_ex)
   \<and> 1 \<le> backups' h_ex
   \<and> fst (backup_create h_ex ''20240103_000000_000000'' w_ex) \<noteq> Inl IndexError"
proof -
  have z: "backups h_zero = 0" by (simp add: h_zero_def)
  have e: "backup_list h_zero w_ex = []" by code_simp
  have p: "1 \<le> backups' h_ex" by (simp add: backups'_def h_ex_def)
  from backup_create_index [of h_zero w_ex "''20240103_000000_000000''"] z e
  have 1: "backup_create h_zero ''20240103_000000_000000'' w_ex = (Inl IndexError, w_ex)"
    by blast
  from backup_create_index [of h_ex w_ex "''20240103_000000_000000''"] p
  have 2: "fst (backup_create h_ex ''20240103_000000_000000'' w_ex) \<noteq> Inl IndexError"
    by blast
  from z e 1 p 2 show ?thesis by blast
qed

section \<open>Retention\<close>

















end
